theory Spec2Isabelle
  imports Main "HOL-Library.Char_ord" "HOL-Library.List_Lexorder"
begin

section \<open>Go library functions the command line uses\<close>

text \<open>
  Go strings are byte sequences; \<open>string\<close> (a \<open>char list\<close>, one \<open>char\<close> per byte) models
  them. \<open>strings.Fields\<close> splits a string around each run of white space as
  \<open>unicode.IsSpace\<close> defines it: the six ASCII characters of the table \<open>asciiSpace\<close>, and
  the runes U+0085, U+00A0, U+1680, U+2000..U+200A, U+2028, U+2029, U+202F, U+205F and
  U+3000, which reach the function as their UTF-8 encodings. None of the bytes that start
  such an encoding is a continuation byte, so matching the encodings at every byte offset
  finds exactly the white-space runes the decoder finds.
\<close>

definition asciiSpace :: "char \<Rightarrow> bool" where
  "asciiSpace c \<longleftrightarrow>
     c = CHR 0x09 \<or> c = CHR 0x0A \<or> c = CHR 0x0B \<or> c = CHR 0x0C \<or> c = CHR 0x0D \<or> c = CHR 0x20"

text \<open>The number of bytes of the white-space rune a string starts with; 0 when it starts with none.\<close>

fun spaceLen :: "string \<Rightarrow> nat" where
  "spaceLen [] = 0"
| "spaceLen (c # cs) =
     (if asciiSpace c then 1
      else if c = CHR 0xC2 then
        (case cs of
           d # _ \<Rightarrow> if d = CHR 0x85 \<or> d = CHR 0xA0 then 2 else 0
         | [] \<Rightarrow> 0)
      else if c = CHR 0xE1 then
        (case cs of
           d # e # _ \<Rightarrow> if d = CHR 0x9A \<and> e = CHR 0x80 then 3 else 0
         | _ \<Rightarrow> 0)
      else if c = CHR 0xE2 then
        (case cs of
           d # e # _ \<Rightarrow>
             if d = CHR 0x80 \<and>
                  ((0x80 \<le> (of_char e :: nat) \<and> (of_char e :: nat) \<le> 0x8A) \<or>
                   e = CHR 0xA8 \<or> e = CHR 0xA9 \<or> e = CHR 0xAF)
               \<or> d = CHR 0x81 \<and> e = CHR 0x9F
             then 3 else 0
         | _ \<Rightarrow> 0)
      else if c = CHR 0xE3 then
        (case cs of
           d # e # _ \<Rightarrow> if d = CHR 0x80 \<and> e = CHR 0x80 then 3 else 0
         | _ \<Rightarrow> 0)
      else 0)"

text \<open>
  The scan of \<open>strings.Fields\<close>: \<open>skip\<close> counts the bytes of a white-space rune still to
  pass over, \<open>w\<close> is the field being read. A field ends at a white-space rune or at the
  end of the string; empty fields are not produced.
\<close>

definition flush :: "string \<Rightarrow> string list" where
  "flush w = (if w = [] then [] else [w])"

fun fieldsFrom :: "nat \<Rightarrow> string \<Rightarrow> string \<Rightarrow> string list" where
  "fieldsFrom skip w [] = flush w"
| "fieldsFrom skip w (c # cs) =
     (if 0 < skip then fieldsFrom (skip - 1) w cs
      else if 0 < spaceLen (c # cs) then flush w @ fieldsFrom (spaceLen (c # cs) - 1) [] cs
      else fieldsFrom 0 (w @ [c]) cs)"

definition Fields :: "string \<Rightarrow> string list" where
  "Fields s = fieldsFrom 0 [] s"

text \<open>\<open>strings.Join(elems, sep)\<close>: the elements with \<open>sep\<close> between neighbours.\<close>

fun Join :: "string list \<Rightarrow> string \<Rightarrow> string" where
  "Join [] sep = []"
| "Join [x] sep = x"
| "Join (x # y # ys) sep = x @ sep @ Join (y # ys) sep"

text \<open>\<open>strconv.Itoa\<close>: the decimal digits of an integer, with a minus sign when negative.\<close>

fun digits :: "nat \<Rightarrow> string" where
  "digits n =
     (if n < 10 then [''0123456789'' ! n]
      else digits (n div 10) @ [''0123456789'' ! (n mod 10)])"

declare digits.simps [simp del]

definition Itoa :: "int \<Rightarrow> string" where
  "Itoa i = (if i < 0 then CHR ''-'' # digits (nat (- i)) else digits (nat i))"

text \<open>
  Indexing and slicing as Go checks them: an index or a bound past the length panics
  (\<open>None\<close> here) where HOL's \<open>!\<close> would return an unspecified value.
\<close>

definition index :: "'a list \<Rightarrow> nat \<Rightarrow> 'a option" where
  "index xs i = (if i < length xs then Some (xs ! i) else None)"

definition sliceFrom :: "'a list \<Rightarrow> nat \<Rightarrow> 'a list option" where
  "sliceFrom xs i = (if i \<le> length xs then Some (drop i xs) else None)"

section \<open>The collaborators of the command line\<close>

text \<open>
  A non-nil Go \<open>error\<close> carries the text of its \<open>Error()\<close> method; \<open>nil\<close> is \<open>None\<close> of
  \<open>error option\<close>.
\<close>

datatype error = Error string

text \<open>\<open>query.Result\<close>: an entry of a query's result stream, or the error met producing it.\<close>

record qresult =
  rKey :: string
  rValue :: string
  rError :: "error option"

text \<open>\<open>peer.AddrInfo\<close>.\<close>

record AddrInfo =
  ID :: string
  Addrs :: "string list"

text \<open>
  \<open>crdt.Options\<close>, as far as \<open>main\<close> sets it: the logger (by its name), the rebroadcast
  interval (a \<open>time.Duration\<close>: nanoseconds in an \<open>int64\<close>), and the two hooks, each by
  the text it writes to standard output.
\<close>

record Options =
  Logger :: string
  RebroadcastInterval :: int
  PutHook :: "(string \<Rightarrow> string \<Rightarrow> string) option"
  DeleteHook :: "(string \<Rightarrow> string) option"

text \<open>
  The libraries \<open>main\<close> calls are not part of the repository; the model takes them as
  parameters. \<open>'st\<close> is the state of the replicated datastore \<open>crdt\<close>
  (\<open>crdt.Datastore\<close> of go-ds-crdt). \<open>Get\<close> and \<open>Query\<close> belong to go-datastore's
  \<open>Read\<close> interface and return a value and an error; \<open>Put\<close> belongs to its \<open>Write\<close>
  interface and returns only an error, leaving the datastore in a new state.
  \<open>Conns\<close> stands for \<open>h.Network().Conns()\<close>, each connection given by its
  \<open>RemotePeer()\<close> and \<open>RemoteMultiaddr()\<close>. \<open>NewMultiaddr\<close> and
  \<open>AddrInfoFromP2pAddr\<close> return a value and an error; \<open>main\<close> discards the error, and the
  value is nil (\<open>None\<close>) when there was one. \<open>hooksInPut\<close> is the calls the library
  makes on the hooks of \<open>opts\<close> while \<open>Put\<close> runs, in order: the library merges the new
  delta before \<open>Put\<close> returns and reports each key it sets or removes to \<open>PutHook\<close> or
  \<open>DeleteHook\<close>. The hook calls it makes from its own goroutines, for the deltas of
  other peers, are not part of this model.
\<close>

datatype hookCall = PutHookCall string string | DeleteHookCall string

record 'st lib =
  NewKey :: "string \<Rightarrow> string"
  crdtGet :: "'st \<Rightarrow> string \<Rightarrow> error + string"
  crdtPut :: "'st \<Rightarrow> string \<Rightarrow> string \<Rightarrow> error option \<times> 'st"
  hooksInPut :: "'st \<Rightarrow> string \<Rightarrow> string \<Rightarrow> hookCall list"
  crdtQuery :: "'st \<Rightarrow> error + qresult list"
  Conns :: "(string \<times> string) list"
  AddrInfoToP2pAddrs :: "AddrInfo \<Rightarrow> error + string list"
  NewMultiaddr :: "string \<Rightarrow> string option"
  AddrInfoFromP2pAddr :: "string option \<Rightarrow> AddrInfo option"
  DefaultBootstrapPeers :: "AddrInfo list"
  DefaultOptions :: Options

text \<open>The calls \<open>main\<close> makes on the datastore and on the IPFS peer, in the order made.\<close>

datatype call =
    CrdtNew Options
  | CrdtGet string
  | CrdtPut string string
  | CrdtQuery
  | Bootstrap "AddrInfo list"
  | TagPeer string string int

text \<open>
  What \<open>main\<close> can observe and change: the datastore, the text written to standard
  output (one entry per write), what the coming calls of \<open>fmt.Scanln\<close> will read from
  standard input (the token read, or \<open>None\<close> when the call stores nothing), the package
  variables \<open>bootstrapNode\<close>, \<open>bootstrapNodeAddr\<close> and \<open>listen\<close>, the level of the logger
  \<open>globaldb\<close>, the warnings handed to it, the calls made on the datastore and the IPFS
  peer, and the local variable \<open>opts\<close> once it is set.
\<close>

record 'st state =
  crdt :: 'st
  stdout :: "string list"
  scans :: "string option list"
  bootstrapNode :: bool
  bootstrapNodeAddr :: string
  listen :: "string option"
  logLevel :: string
  warnings :: "error list"
  calls :: "call list"
  opts :: "Options option"

definition Printf :: "string \<Rightarrow> 'st state \<Rightarrow> 'st state" where
  "Printf str s = s\<lparr>stdout := stdout s @ [str]\<rparr>"

definition Println :: "string \<Rightarrow> 'st state \<Rightarrow> 'st state" where
  "Println str s = Printf (str @ [CHR 0x0A]) s"

definition called :: "call \<Rightarrow> 'st state \<Rightarrow> 'st state" where
  "called c s = s\<lparr>calls := calls s @ [c]\<rparr>"

text \<open>
  What a call on a hook writes: the library was built from \<open>opts\<close> (line 197) and calls
  the hook it holds, if any; the hooks \<open>main\<close> installs print one line each (lines
  189-195).
\<close>

fun hookText :: "Options option \<Rightarrow> hookCall \<Rightarrow> string list" where
  "hookText None c = []"
| "hookText (Some ops) (PutHookCall k v) = (case PutHook ops of None \<Rightarrow> [] | Some h \<Rightarrow> [h k v])"
| "hookText (Some ops) (DeleteHookCall k) = (case DeleteHook ops of None \<Rightarrow> [] | Some h \<Rightarrow> [h k])"

definition hookLines :: "Options option \<Rightarrow> hookCall list \<Rightarrow> string list" where
  "hookLines ops cs = concat (map (hookText ops) cs)"

definition runHooks :: "hookCall list \<Rightarrow> 'st state \<Rightarrow> 'st state" where
  "runHooks cs s = s\<lparr>stdout := stdout s @ hookLines (opts s) cs\<rparr>"

text \<open>How \<open>fmt\<close> prints an error operand: its text, or \<open><nil>\<close> for the nil error.\<close>

fun errText :: "error option \<Rightarrow> string" where
  "errText None = ''<nil>''"
| "errText (Some (Error m)) = m"

text \<open>\<open>printErr\<close> (lines 341-344).\<close>

definition printErr :: "error option \<Rightarrow> 'st state \<Rightarrow> 'st state" where
  "printErr err s = Println ''> '' (Println (''error: '' @ errText err) s)"

text \<open>\<open>connectedPeers\<close> (lines 346-355).\<close>

definition connectedPeers :: "(string \<times> string) list \<Rightarrow> AddrInfo list" where
  "connectedPeers conns = map (\<lambda>(p, a). \<lparr>ID = p, Addrs = [a]\<rparr>) conns"

section \<open>The command loop of \<open>main\<close> (lines 260-338)\<close>

datatype panic = IndexOutOfRange nat nat | SliceOutOfRange nat nat | NilDereference

text \<open>
  How a piece of \<open>main\<close> ends: \<open>Normal\<close> reaches the statement after it (for a case of
  the \<open>switch\<close>, the prompt printed after the \<open>switch\<close>), \<open>Continue\<close> is the statement
  \<open>continue\<close>, \<open>Return\<close> leaves \<open>main\<close>, \<open>Panic\<close> is a run-time panic and \<open>Fatal\<close> is
  \<open>logger.Fatal\<close>; both of these end the process.
\<close>

datatype 'a ctl = Normal 'a | Continue 'a | Return 'a | Panic panic 'a | Fatal error 'a

fun stateOf :: "'a ctl \<Rightarrow> 'a" where
  "stateOf (Normal s) = s"
| "stateOf (Continue s) = s"
| "stateOf (Return s) = s"
| "stateOf (Panic p s) = s"
| "stateOf (Fatal e s) = s"

text \<open>\<open>debug peers\<close> (lines 286-295).\<close>

fun printAddrs :: "string list \<Rightarrow> 'st state \<Rightarrow> 'st state" where
  "printAddrs [] s = s"
| "printAddrs (a # as) s = printAddrs as (Println a s)"

fun debugPeers :: "'st lib \<Rightarrow> AddrInfo list \<Rightarrow> 'st state \<Rightarrow> 'st state" where
  "debugPeers L [] s = s"
| "debugPeers L (p # ps) s =
     (case AddrInfoToP2pAddrs L p of
        Inl err \<Rightarrow> debugPeers L ps (s\<lparr>warnings := warnings s @ [err]\<rparr>)
      | Inr addrs \<Rightarrow> debugPeers L ps (printAddrs addrs s))"

text \<open>
  \<open>case "debug"\<close> (lines 275-296). The usage message is printed when there is no second
  field, and \<open>fields[1]\<close> is read whether or not it was.
\<close>

definition cmdDebug :: "'st lib \<Rightarrow> string list \<Rightarrow> 'st state \<Rightarrow> 'st state ctl" where
  "cmdDebug L fs s =
     (let s1 = (if length fs < 2 then Println ''debug <on/off/peers>'' s else s) in
      case index fs 1 of
        None \<Rightarrow> Panic (IndexOutOfRange 1 (length fs)) s1
      | Some st \<Rightarrow>
          if st = ''on'' then Normal (s1\<lparr>logLevel := ''debug''\<rparr>)
          else if st = ''off'' then Normal (s1\<lparr>logLevel := ''error''\<rparr>)
          else if st = ''peers'' then Normal (debugPeers L (connectedPeers (Conns L)) s1)
          else Normal s1)"

text \<open>
  \<open>case "list"\<close> (lines 297-309). When \<open>Query\<close> fails the error is printed and the loop
  over \<open>results.Next()\<close> is entered all the same, on the nil \<open>results\<close>. Inside the loop
  the error printed for a failed entry is the outer \<open>err\<close>, which is nil there.
\<close>

fun printResults :: "error option \<Rightarrow> qresult list \<Rightarrow> 'st state \<Rightarrow> 'st state" where
  "printResults err [] s = s"
| "printResults err (r # rs) s =
     (case rError r of
        Some _ \<Rightarrow> printResults err rs (printErr err s)
      | None \<Rightarrow> printResults err rs (Printf (''['' @ rKey r @ ''] -> '' @ rValue r @ [CHR 0x0A]) s))"

definition cmdList :: "'st lib \<Rightarrow> 'st state \<Rightarrow> 'st state ctl" where
  "cmdList L s =
     (let s1 = called CrdtQuery s in
      case crdtQuery L (crdt s1) of
        Inl err \<Rightarrow> Panic NilDereference (printErr (Some err) s1)
      | Inr results \<Rightarrow> Normal (printResults None results s1))"

text \<open>\<open>case "get"\<close> (lines 310-322).\<close>

definition cmdGet :: "'st lib \<Rightarrow> string list \<Rightarrow> 'st state \<Rightarrow> 'st state ctl" where
  "cmdGet L fs s =
     (if length fs < 2 then Continue (Println ''> '' (Println ''get <key>'' s))
      else case index fs 1 of
        None \<Rightarrow> Panic (IndexOutOfRange 1 (length fs)) s
      | Some f1 \<Rightarrow>
          (let k = NewKey L f1; s1 = called (CrdtGet k) s in
           case crdtGet L (crdt s1) k of
             Inl err \<Rightarrow> Continue (printErr (Some err) s1)
           | Inr v \<Rightarrow> Normal (Printf (''['' @ k @ ''] -> '' @ v @ [CHR 0x0A]) s1)))"

text \<open>
  \<open>case "put"\<close> (lines 323-336). While \<open>crdt.Put\<close> runs the library calls the hooks, which
  print before \<open>Put\<close> returns.
\<close>

definition cmdPut :: "'st lib \<Rightarrow> string list \<Rightarrow> 'st state \<Rightarrow> 'st state ctl" where
  "cmdPut L fs s =
     (if length fs < 3 then Continue (Println ''> '' (Println ''put <key> <value>'' s))
      else case index fs 1 of
        None \<Rightarrow> Panic (IndexOutOfRange 1 (length fs)) s
      | Some f1 \<Rightarrow>
          (case sliceFrom fs 2 of
             None \<Rightarrow> Panic (SliceOutOfRange 2 (length fs)) s
           | Some rest \<Rightarrow>
               (let k = NewKey L f1; v = Join rest '' '';
                    s1 = called (CrdtPut k v) s;
                    (err, st') = crdtPut L (crdt s1) k v;
                    s2 = runHooks (hooksInPut L (crdt s1) k v) (s1\<lparr>crdt := st'\<rparr>) in
                case err of
                  Some e \<Rightarrow> Continue (printErr (Some e) s2)
                | None \<Rightarrow> Normal s2)))"

text \<open>The \<open>switch\<close> on the first field (lines 272-336); a word that is no command matches no case.\<close>

definition switch :: "'st lib \<Rightarrow> string \<Rightarrow> string list \<Rightarrow> 'st state \<Rightarrow> 'st state ctl" where
  "switch L cmd fs s =
     (if cmd = ''exit'' \<or> cmd = ''quit'' then Return s
      else if cmd = ''debug'' then cmdDebug L fs s
      else if cmd = ''list'' then cmdList L s
      else if cmd = ''get'' then cmdGet L fs s
      else if cmd = ''put'' then cmdPut L fs s
      else Normal s)"

text \<open>One pass of the loop body on a line the scanner returned (lines 263-337).\<close>

definition loopBody :: "'st lib \<Rightarrow> 'st state \<Rightarrow> string \<Rightarrow> 'st state ctl" where
  "loopBody L s text =
     (let fs = Fields text in
      if length fs = 0 then Continue (Printf ''> '' s)
      else case index fs 0 of
        None \<Rightarrow> Panic (IndexOutOfRange 0 (length fs)) s
      | Some cmd \<Rightarrow>
          (case switch L cmd fs s of
             Normal s' \<Rightarrow> Continue (Printf ''> '' s')
           | r \<Rightarrow> r))"

text \<open>
  The loop \<open>for scanner.Scan()\<close> over the lines the scanner returns; when it returns no
  more, \<open>main\<close> returns. The prompt before the loop is line 260.
\<close>

fun scanLoop :: "'st lib \<Rightarrow> 'st state \<Rightarrow> string list \<Rightarrow> 'st state ctl" where
  "scanLoop L s [] = Return s"
| "scanLoop L s (text # rest) =
     (case loopBody L s text of
        Continue s' \<Rightarrow> scanLoop L s' rest
      | r \<Rightarrow> r)"

definition commandLoop :: "'st lib \<Rightarrow> 'st state \<Rightarrow> string list \<Rightarrow> 'st state ctl" where
  "commandLoop L s lines = scanLoop L (Printf ''> '' s) lines"

section \<open>The start of \<open>main\<close> (lines 47-258)\<close>

text \<open>
  \<open>fmt.Scanln(&v)\<close>: the next entry of \<open>scans\<close> is used up; \<open>v\<close> keeps its value when the
  call stores nothing or standard input has ended.
\<close>

definition Scanln :: "string \<Rightarrow> 'st state \<Rightarrow> string \<times> 'st state" where
  "Scanln v s =
     (case scans s of
        [] \<Rightarrow> (v, s)
      | r # rest \<Rightarrow> ((case r of None \<Rightarrow> v | Some t \<Rightarrow> t), s\<lparr>scans := rest\<rparr>))"

text \<open>
  The calls of lines 69-197 whose error ends the process through \<open>logger.Fatal\<close>, and how
  \<open>os.Stat(keyPath)\<close> can answer. What the operating system and the libraries answer is
  the environment \<open>env\<close>: the command line, the answer of \<open>rand.Intn\<close> for a bound, the
  answer of \<open>os.Stat\<close>, the error of each call (\<open>None\<close> when it succeeds), the text of the
  peer identifier and the data folder \<open>filepath.Join(dir, config, uniqueID)\<close>.
\<close>

datatype setupStep =
    HomeDir | NewDatastore | GenerateKeyPair | MarshalPrivateKey | WriteFile | ReadFile
  | UnmarshalPrivateKey | IDFromPublicKey | SetupLibp2p | NewGossipSub | JoinTopic
  | Subscribe | IpfsNew | NewPubSubBroadcaster | CrdtNewStep

datatype statResult = StatNotExist | StatError error | StatOK

record env =
  osArgs :: "string list"
  Intn :: "int \<Rightarrow> int"
  keyStat :: statResult
  failure :: "setupStep \<Rightarrow> error option"
  peerID :: string
  dataFolder :: string

text \<open>Lines 48-55.\<close>

definition askBootstrap :: "'st state \<Rightarrow> 'st state" where
  "askBootstrap s =
     (let s1 = Println ''Is this a bootstrap node? (y/n): '' s;
          (isBootstrap, s2) = Scanln [] s1
      in s2\<lparr>bootstrapNode := (isBootstrap = ''y'')\<rparr>)"

text \<open>Lines 57-59.\<close>

definition port :: "env \<Rightarrow> int" where
  "port E = 4000 + Intn E 1000"

definition listenText :: "env \<Rightarrow> string" where
  "listenText E = ''/ip4/127.0.0.1/tcp/'' @ Itoa (port E)"

text \<open>
  Lines 69-184: every call whose error is checked, in program order; the first error is
  fatal. The error of \<open>os.MkdirAll\<close> (line 75) is overwritten unread. The goroutines
  started on lines 152-173 run beside \<open>main\<close> and are not part of this model.
\<close>

fun firstFailure :: "(setupStep \<Rightarrow> error option) \<Rightarrow> setupStep list \<Rightarrow> error option" where
  "firstFailure f [] = None"
| "firstFailure f (x # xs) = (case f x of Some e \<Rightarrow> Some e | None \<Rightarrow> firstFailure f xs)"

definition openNode :: "env \<Rightarrow> error option" where
  "openNode E =
     (case firstFailure (failure E) [HomeDir, NewDatastore] of
        Some e \<Rightarrow> Some e
      | None \<Rightarrow>
          (case (case keyStat E of
                   StatNotExist \<Rightarrow>
                     firstFailure (failure E) [GenerateKeyPair, MarshalPrivateKey, WriteFile]
                 | StatError e \<Rightarrow> Some e
                 | StatOK \<Rightarrow> firstFailure (failure E) [ReadFile, UnmarshalPrivateKey]) of
             Some e \<Rightarrow> Some e
           | None \<Rightarrow>
               firstFailure (failure E)
                 [IDFromPublicKey, SetupLibp2p, NewGossipSub, JoinTopic, Subscribe, IpfsNew,
                  NewPubSubBroadcaster]))"

text \<open>Lines 186-195. \<open>time.Second\<close> is 1000000000 nanoseconds.\<close>

definition Second :: int where
  "Second = 1000000000"

definition putHook :: "string \<Rightarrow> string \<Rightarrow> string" where
  "putHook k v = ''Added: ['' @ k @ ''] -> '' @ v @ [CHR 0x0A]"

definition deleteHook :: "string \<Rightarrow> string" where
  "deleteHook k = ''Removed: ['' @ k @ '']'' @ [CHR 0x0A]"

definition configure :: "'st lib \<Rightarrow> Options" where
  "configure L =
     (DefaultOptions L)
       \<lparr>Logger := ''globaldb'', RebroadcastInterval := 5 * Second,
        PutHook := Some putHook, DeleteHook := Some deleteHook\<rparr>"

text \<open>
  Lines 204-217. The errors of \<open>NewMultiaddr\<close> and \<open>AddrInfoFromP2pAddr\<close> are discarded;
  \<open>*inf\<close> is evaluated before \<open>Bootstrap\<close> is called.
\<close>

definition bootstrapPeer :: "'st lib \<Rightarrow> 'st state \<Rightarrow> 'st state ctl" where
  "bootstrapPeer L s =
     (if \<not> bootstrapNode s then
        (let s1 = Println ''Enter the bootstrap node address:'' s;
             (addr, s2) = Scanln (bootstrapNodeAddr s1) s1;
             s3 = Println ''Bootstrapping...'' (s2\<lparr>bootstrapNodeAddr := addr\<rparr>);
             bstr = NewMultiaddr L (bootstrapNodeAddr s3)
         in case AddrInfoFromP2pAddr L bstr of
              None \<Rightarrow> Panic NilDereference s3
            | Some info \<Rightarrow>
                Normal (called (TagPeer (ID info) ''keep'' 100)
                         (called (Bootstrap (DefaultBootstrapPeers L @ [info])) s3)))
      else Normal s)"

text \<open>Lines 219-239: \<open>listen.String()\<close> on the multiaddr of line 59, then the banner.\<close>

definition bannerText :: "string \<Rightarrow> string \<Rightarrow> string \<Rightarrow> string \<Rightarrow> string \<Rightarrow> string" where
  "bannerText pid lst topic data myNodeAddr =
     concat (map (\<lambda>l. l @ [CHR 0x0A])
       [[],
        ''Peer ID: '' @ pid,
        ''Listen address: '' @ lst,
        ''Topic: '' @ topic,
        ''Data Folder: '' @ data,
        ''Node Address: '' @ myNodeAddr,
        ''Ready!'',
        [],
        ''Commands:'',
        [],
        ''> list               -> list items in the store'',
        ''> get <key>          -> get value for a key'',
        ''> put <key> <value>  -> store value on a key'',
        ''> exit               -> quit'',
        [],
        []])"

definition topicName :: string where
  "topicName = ''globaldb-example''"

definition banner :: "env \<Rightarrow> 'st state \<Rightarrow> 'st state ctl" where
  "banner E s =
     (case listen s of
        None \<Rightarrow> Panic NilDereference s
      | Some l \<Rightarrow>
          Normal (Printf (bannerText (peerID E) l topicName (dataFolder E)
                            (l @ ''/ipfs/'' @ peerID E)) s))"

text \<open>
  Lines 241-258: in daemon mode \<open>main\<close> waits for a signal and returns when one arrives;
  the goroutine that reports the connected peers is not part of this model.
\<close>

definition daemonMode :: "env \<Rightarrow> bool" where
  "daemonMode E \<longleftrightarrow> 1 < length (osArgs E) \<and> index (osArgs E) 1 = Some ''daemon''"

text \<open>
  \<open>main\<close>, run on the lines the scanner will return: the state it ends in, and how. The
  deferred calls are left out.
\<close>

definition main :: "'st lib \<Rightarrow> env \<Rightarrow> string list \<Rightarrow> 'st state \<Rightarrow> 'st state ctl" where
  "main L E lines s0 =
     (let s1 = askBootstrap s0;
          s2 = s1\<lparr>listen := NewMultiaddr L (listenText E)\<rparr>;
          s3 = s2\<lparr>logLevel := ''error''\<rparr>
      in case openNode E of
           Some e \<Rightarrow> Fatal e s3
         | None \<Rightarrow>
             (let s4 = called (CrdtNew (configure L)) (s3\<lparr>opts := Some (configure L)\<rparr>)
              in case failure E CrdtNewStep of
                   Some e \<Rightarrow> Fatal e s4
                 | None \<Rightarrow>
                     (case bootstrapPeer L s4 of
                        Normal s5 \<Rightarrow>
                          (case banner E s5 of
                             Normal s6 \<Rightarrow>
                               if daemonMode E then Return (Println ''Running in daemon mode'' s6)
                               else commandLoop L s6 lines
                           | r \<Rightarrow> r)
                      | r \<Rightarrow> r)))"

text \<open>The state \<open>main\<close> starts in: the package variables hold their zero values.\<close>

definition start :: "'st \<Rightarrow> string option list \<Rightarrow> 'st state" where
  "start st sc =
     \<lparr>crdt = st, stdout = [], scans = sc, bootstrapNode = False, bootstrapNodeAddr = [],
      listen = None, logLevel = [], warnings = [], calls = [], opts = None\<rparr>"

section \<open>The replication core, from the specification\<close>

text \<open>
  The merge engine that \<open>crdt.New\<close> returns is the library go-ds-crdt; the repository
  holds only its caller. What the specification says of it (sections 3 and 4.1) is
  modelled here, to state its convergence property. Identifiers, keys and values are
  byte strings; identifiers are compared as the order of \<open>string\<close> compares them, byte by
  byte from the left.
\<close>

text \<open>
  Modelled from the spec: the Delta of section 3, which is not in the repository: its
  content identifier, its additions \<open>(key, value, priority)\<close>, its removals
  \<open>(key, anchoring identifiers)\<close> and the identifiers of its parents.
\<close>

record delta =
  did :: string
  additions :: "(string \<times> string \<times> nat) list"
  removals :: "(string \<times> string list) list"
  parents :: "string list"

text \<open>
  Modelled from the spec: the Materialized State of one key (section 3), which is not in
  the repository: the addition it holds, as \<open>(current_priority, identifier of the delta it
  came from, current_value)\<close>, or \<open>None\<close> while no addition for the key has been applied,
  and the tombstone marker. The identifier is the bookkeeping the tie-break compares.
\<close>

record kstate =
  held :: "(nat \<times> string \<times> string) option"
  is_tombstoned :: bool

text \<open>
  Modelled from the spec: the state of a replica that the Merge Engine reads and writes
  (section 3), which is not in the repository: the Applied Set and the Materialized State
  of every key.
\<close>

record replica =
  applied :: "string set"
  mat :: "string \<Rightarrow> kstate"

text \<open>
  Modelled from the spec: the error \<open>Apply\<close> reports (sections 4.1 and 7), which is not in
  the repository. The store under the Materialized State is taken not to fail, so
  \<open>PersistenceError\<close> does not arise.
\<close>

datatype merge_error = CausalGapError

text \<open>
  Modelled from the spec: the addition step of \<open>Apply\<close> (section 4.1), which is not in
  the repository: "if priority > current_priority[key], or equal priority with a larger
  delta-identifier tie-break, set current_value[key] = value, current_priority[key] =
  priority, clear tombstone". A key that holds nothing takes the addition.
\<close>

definition addOne ::
  "string \<Rightarrow> string \<times> string \<times> nat \<Rightarrow> (string \<Rightarrow> kstate) \<Rightarrow> (string \<Rightarrow> kstate)" where
  "addOne i a m =
     (case a of (k, v, p) \<Rightarrow>
        (case held (m k) of
           None \<Rightarrow> m(k := \<lparr>held = Some (p, i, v), is_tombstoned = False\<rparr>)
         | Some (q, j, w) \<Rightarrow>
             if q < p \<or> (q = p \<and> j < i)
             then m(k := \<lparr>held = Some (p, i, v), is_tombstoned = False\<rparr>)
             else m))"

text \<open>
  Modelled from the spec: the removal step of \<open>Apply\<close> (section 4.1), which is not in the
  repository: "if all anchors are in the Applied Set, mark key tombstoned unless a later
  (by the same priority/tie-break rule) addition not covered by any removal anchor
  exists". The Materialized State holds the latest addition applied for the key, so an
  addition later than the anchored ones and not covered by the anchors exists exactly
  when the addition held is not covered.
\<close>

definition removeOne ::
  "string set \<Rightarrow> string \<times> string list \<Rightarrow> (string \<Rightarrow> kstate) \<Rightarrow> (string \<Rightarrow> kstate)" where
  "removeOne A r m =
     (case r of (k, anchors) \<Rightarrow>
        if set anchors \<subseteq> A then
          (case held (m k) of
             None \<Rightarrow> m(k := (m k)\<lparr>is_tombstoned := True\<rparr>)
           | Some (q, j, w) \<Rightarrow>
               if j \<in> set anchors then m(k := (m k)\<lparr>is_tombstoned := True\<rparr>) else m)
        else m)"

text \<open>
  Modelled from the spec: \<open>Apply(delta)\<close> of the Merge Engine (section 4.1), which is not in
  the repository: a no-op reported as success on an identifier of the Applied Set,
  \<open>CausalGapError\<close> when a parent is not in the Applied Set, and otherwise the additions,
  then the removals, then the identifier joins the Applied Set.
\<close>

definition Apply :: "delta \<Rightarrow> replica \<Rightarrow> merge_error + replica" where
  "Apply d r =
     (if did d \<in> applied r then Inr r
      else if \<not> set (parents d) \<subseteq> applied r then Inl CausalGapError
      else Inr \<lparr>applied = insert (did d) (applied r),
                mat = fold (removeOne (applied r)) (removals d)
                        (fold (addOne (did d)) (additions d) (mat r))\<rparr>)"

















section \<open>Observers and a library to run the model on\<close>

text \<open>The calls that only read the datastore, and the calls on the datastore at all.\<close>

fun readOnly :: "call \<Rightarrow> bool" where
  "readOnly (CrdtGet k) = True"
| "readOnly CrdtQuery = True"
| "readOnly c = False"

fun storeCall :: "call \<Rightarrow> bool" where
  "storeCall (CrdtGet k) = True"
| "storeCall (CrdtPut k v) = True"
| "storeCall CrdtQuery = True"
| "storeCall c = False"

text \<open>The peer lists \<open>ipfs.Bootstrap\<close> was called with, in order.\<close>

fun bootstrapArgs :: "call list \<Rightarrow> AddrInfo list list" where
  "bootstrapArgs [] = []"
| "bootstrapArgs (Bootstrap ps # cs) = ps # bootstrapArgs cs"
| "bootstrapArgs (c # cs) = bootstrapArgs cs"

text \<open>The options \<open>crdt.New\<close> was called with, in order.\<close>

fun newArgs :: "call list \<Rightarrow> Options list" where
  "newArgs [] = []"
| "newArgs (CrdtNew x # cs) = x # newArgs cs"
| "newArgs (c # cs) = newArgs cs"

text \<open>What the \<open>n\<close>-th coming call of \<open>fmt.Scanln\<close> stores into an empty variable.\<close>

definition scanned :: "string option list \<Rightarrow> nat \<Rightarrow> string" where
  "scanned sc n = (case drop n sc of Some t # _ \<Rightarrow> t | _ \<Rightarrow> [])"

text \<open>
  Words that hold no white space for certain: none of their bytes is an ASCII space or
  can start the encoding of another white-space rune.
\<close>

definition plainByte :: "char \<Rightarrow> bool" where
  "plainByte c \<longleftrightarrow>
     \<not> asciiSpace c \<and> c \<noteq> CHR 0xC2 \<and> c \<noteq> CHR 0xE1 \<and> c \<noteq> CHR 0xE2 \<and> c \<noteq> CHR 0xE3"

definition plainWord :: "string \<Rightarrow> bool" where
  "plainWord w \<longleftrightarrow> w \<noteq> [] \<and> list_all plainByte w"

text \<open>
  A stand-in for the libraries, to run the model on concrete inputs: a datastore kept in
  a map, whose \<open>Put\<close> fails on the key \<open>/full\<close> and whose \<open>Query\<close> fails once the key
  \<open>/broken\<close> is set, and which reports a key it has set to \<open>PutHook\<close>; keys get a leading
  slash; a multiaddr must start with a slash, and the one address that parses to a peer
  is that of a public bootstrap peer.
\<close>

definition memLib :: "(string \<rightharpoonup> string) lib" where
  "memLib =
     \<lparr>NewKey = (\<lambda>s. CHR ''/'' # s),
      crdtGet = (\<lambda>m k. case m k of
                          None \<Rightarrow> Inl (Error ''datastore: key not found'')
                        | Some v \<Rightarrow> Inr v),
      crdtPut = (\<lambda>m k v. if k = ''/full'' then (Some (Error ''disk full''), m)
                          else (None, m(k \<mapsto> v))),
      hooksInPut = (\<lambda>m k v. if k = ''/full'' then [] else [PutHookCall k v]),
      crdtQuery = (\<lambda>m. if m ''/broken'' = None then Inr []
                        else Inl (Error ''query failed'')),
      Conns = [],
      AddrInfoToP2pAddrs = (\<lambda>p. Inr (Addrs p)),
      NewMultiaddr = (\<lambda>a. if take 1 a = ''/'' then Some a else None),
      AddrInfoFromP2pAddr =
        (\<lambda>m. if m = Some ''/ip4/104.131.131.82/tcp/4001/p2p/QmaCpDMGvV2BGHeYERUEnRQAwe3N8SzbUtfsmvsqQLuvuJ''
             then Some \<lparr>ID = ''QmaCpDMGvV2BGHeYERUEnRQAwe3N8SzbUtfsmvsqQLuvuJ'',
                        Addrs = [''/ip4/104.131.131.82/tcp/4001'']\<rparr>
             else None),
      DefaultBootstrapPeers = [\<lparr>ID = ''QmDefault'', Addrs = [''/dnsaddr/bootstrap.libp2p.io'']\<rparr>],
      DefaultOptions =
        \<lparr>Logger = [], RebroadcastInterval = 60 * Second, PutHook = None, DeleteHook = None\<rparr>\<rparr>"

definition okEnv :: env where
  "okEnv =
     \<lparr>osArgs = [''globaldb''], Intn = (\<lambda>n. 123), keyStat = StatNotExist,
      failure = (\<lambda>x. None), peerID = ''QmSelf'',
      dataFolder = ''/home/u/globaldb-example/instance-1''\<rparr>"

definition s0 :: "(string \<rightharpoonup> string) state" where
  "s0 = start Map.empty []"

text \<open>The same with \<open>opts\<close> as \<open>main\<close> has set it when the command loop runs.\<close>

definition s1 :: "(string \<rightharpoonup> string) state" where
  "s1 = s0\<lparr>opts := Some (configure memLib)\<rparr>"

section \<open>What each part of \<open>main\<close> leaves alone\<close>

lemma Printf_frame [simp]:
  "crdt (Printf x s) = crdt s" "calls (Printf x s) = calls s" "opts (Printf x s) = opts s"
  "scans (Printf x s) = scans s" "listen (Printf x s) = listen s"
  "bootstrapNode (Printf x s) = bootstrapNode s" "bootstrapNodeAddr (Printf x s) = bootstrapNodeAddr s"
  by (simp_all add: Printf_def)

lemma Println_frame [simp]:
  "crdt (Println x s) = crdt s" "calls (Println x s) = calls s" "opts (Println x s) = opts s"
  "scans (Println x s) = scans s" "listen (Println x s) = listen s"
  "bootstrapNode (Println x s) = bootstrapNode s" "bootstrapNodeAddr (Println x s) = bootstrapNodeAddr s"
  by (simp_all add: Println_def)

lemma printErr_frame [simp]:
  "crdt (printErr e s) = crdt s" "calls (printErr e s) = calls s" "opts (printErr e s) = opts s"
  "scans (printErr e s) = scans s" "listen (printErr e s) = listen s"
  by (simp_all add: printErr_def)

lemma called_frame [simp]:
  "crdt (called c s) = crdt s" "calls (called c s) = calls s @ [c]" "opts (called c s) = opts s"
  "scans (called c s) = scans s" "listen (called c s) = listen s"
  "bootstrapNode (called c s) = bootstrapNode s" "bootstrapNodeAddr (called c s) = bootstrapNodeAddr s"
  by (simp_all add: called_def)

lemma runHooks_frame [simp]:
  "crdt (runHooks cs s) = crdt s" "calls (runHooks cs s) = calls s"
  "opts (runHooks cs s) = opts s" "scans (runHooks cs s) = scans s"
  "listen (runHooks cs s) = listen s"
  by (simp_all add: runHooks_def)

lemma printResults_frame [simp]:
  "crdt (printResults e rs s) = crdt s" "calls (printResults e rs s) = calls s"
  "opts (printResults e rs s) = opts s" "scans (printResults e rs s) = scans s"
  "listen (printResults e rs s) = listen s"
  by (induction rs arbitrary: s) (auto split: option.splits)

lemma printAddrs_frame [simp]:
  "crdt (printAddrs as s) = crdt s" "calls (printAddrs as s) = calls s"
  "opts (printAddrs as s) = opts s" "scans (printAddrs as s) = scans s"
  "listen (printAddrs as s) = listen s"
  by (induction as arbitrary: s) auto

lemma debugPeers_frame [simp]:
  "crdt (debugPeers L ps s) = crdt s" "calls (debugPeers L ps s) = calls s"
  "opts (debugPeers L ps s) = opts s" "scans (debugPeers L ps s) = scans s"
  "listen (debugPeers L ps s) = listen s"
  by (induction ps arbitrary: s) (auto split: sum.splits)

lemma loopBody_put:
  assumes "Fields text = ''put'' # k # ws" and "ws \<noteq> []"
  shows "loopBody L s text =
     (let key = NewKey L k; v = Join ws '' '';
          s2 = s\<lparr>calls := calls s @ [CrdtPut key v], crdt := snd (crdtPut L (crdt s) key v),
                stdout := stdout s @ hookLines (opts s) (hooksInPut L (crdt s) key v)\<rparr> in
      case fst (crdtPut L (crdt s) key v) of
        Some e \<Rightarrow> Continue (printErr (Some e) s2)
      | None \<Rightarrow> Continue (Printf ''> '' s2))"
proof -
  obtain w ws' where ws: "ws = w # ws'" using assms(2) by (cases ws) auto
  show ?thesis
    unfolding loopBody_def switch_def cmdPut_def
    by (simp add: assms(1) ws index_def sliceFrom_def called_def runHooks_def Let_def
          split: prod.split option.split)
qed

text \<open>What any pass of the loop body leaves alone, and the calls it can add.\<close>

lemma cmdDebug_frame:
  "opts (stateOf (cmdDebug L fs s)) = opts s \<and> scans (stateOf (cmdDebug L fs s)) = scans s
   \<and> listen (stateOf (cmdDebug L fs s)) = listen s
   \<and> calls (stateOf (cmdDebug L fs s)) = calls s"
  by (simp add: cmdDebug_def Let_def split: option.split)

lemma cmdList_frame:
  "opts (stateOf (cmdList L s)) = opts s \<and> scans (stateOf (cmdList L s)) = scans s
   \<and> listen (stateOf (cmdList L s)) = listen s
   \<and> calls (stateOf (cmdList L s)) = calls s @ [CrdtQuery]"
  by (simp add: cmdList_def Let_def split: sum.split)

lemma cmdGet_frame:
  "opts (stateOf (cmdGet L fs s)) = opts s \<and> scans (stateOf (cmdGet L fs s)) = scans s
   \<and> listen (stateOf (cmdGet L fs s)) = listen s
   \<and> (\<exists>cs. calls (stateOf (cmdGet L fs s)) = calls s @ cs \<and> list_all storeCall cs)"
  by (simp add: cmdGet_def Let_def split: sum.split option.split)

lemma cmdPut_frame:
  "opts (stateOf (cmdPut L fs s)) = opts s \<and> scans (stateOf (cmdPut L fs s)) = scans s
   \<and> listen (stateOf (cmdPut L fs s)) = listen s
   \<and> (\<exists>cs. calls (stateOf (cmdPut L fs s)) = calls s @ cs \<and> list_all storeCall cs)"
  by (simp add: cmdPut_def Let_def split: sum.split option.split prod.split)

lemma switch_frame:
  "opts (stateOf (switch L cmd fs s)) = opts s \<and> scans (stateOf (switch L cmd fs s)) = scans s
   \<and> listen (stateOf (switch L cmd fs s)) = listen s
   \<and> (\<exists>cs. calls (stateOf (switch L cmd fs s)) = calls s @ cs \<and> list_all storeCall cs)"
  using cmdDebug_frame [of L fs s] cmdList_frame [of L s] cmdGet_frame [of L fs s]
    cmdPut_frame [of L fs s]
  by (simp add: switch_def)

lemma loopBody_frame:
  "opts (stateOf (loopBody L s t)) = opts s \<and> scans (stateOf (loopBody L s t)) = scans s
   \<and> listen (stateOf (loopBody L s t)) = listen s
   \<and> (\<exists>cs. calls (stateOf (loopBody L s t)) = calls s @ cs \<and> list_all storeCall cs)"
proof (cases "Fields t")
  case Nil
  then show ?thesis by (simp add: loopBody_def)
next
  case (Cons cmd rest)
  show ?thesis
    using switch_frame [of L cmd "Fields t" s]
    by (cases "switch L cmd (Fields t) s") (auto simp add: loopBody_def Cons index_def)
qed

lemma scanLoop_frame:
  "opts (stateOf (scanLoop L s ls)) = opts s \<and> scans (stateOf (scanLoop L s ls)) = scans s
   \<and> listen (stateOf (scanLoop L s ls)) = listen s
   \<and> (\<exists>cs. calls (stateOf (scanLoop L s ls)) = calls s @ cs \<and> list_all storeCall cs)"
proof (induction ls arbitrary: s)
  case Nil
  then show ?case by simp
next
  case (Cons t ls)
  obtain cs where b: "opts (stateOf (loopBody L s t)) = opts s"
      "scans (stateOf (loopBody L s t)) = scans s"
      "listen (stateOf (loopBody L s t)) = listen s"
      "calls (stateOf (loopBody L s t)) = calls s @ cs" "list_all storeCall cs"
    using loopBody_frame [of L s t] by blast
  show ?case
  proof (cases "loopBody L s t")
    case (Continue s')
    obtain cs' where r: "opts (stateOf (scanLoop L s' ls)) = opts s'"
        "scans (stateOf (scanLoop L s' ls)) = scans s'"
        "listen (stateOf (scanLoop L s' ls)) = listen s'"
        "calls (stateOf (scanLoop L s' ls)) = calls s' @ cs'" "list_all storeCall cs'"
      using Cons.IH [of s'] by blast
    from b Continue have "opts s' = opts s" "scans s' = scans s" "listen s' = listen s"
        "calls s' = calls s @ cs" by simp_all
    with r b(5) Continue show ?thesis by simp
  qed (use b in auto)
qed

text \<open>The only call that is not a read comes from a \<open>put\<close> line.\<close>

lemma switch_writes:
  "\<exists>cs. calls (stateOf (switch L cmd fs s)) = calls s @ cs
     \<and> (list_all readOnly cs \<or> cmd = ''put'' \<and> (\<exists>k v. cs = [CrdtPut k v]))"
proof -
  consider "cmd = ''debug''" | "cmd = ''list''" | "cmd = ''get''" | "cmd = ''put''"
    | "cmd = ''exit'' \<or> cmd = ''quit''"
    | "cmd \<noteq> ''debug''" "cmd \<noteq> ''list''" "cmd \<noteq> ''get''" "cmd \<noteq> ''put''"
      "cmd \<noteq> ''exit''" "cmd \<noteq> ''quit''"
    by blast
  then show ?thesis
  proof cases
    case 1
    then show ?thesis using cmdDebug_frame [of L fs s] by (simp add: switch_def)
  next
    case 2
    then show ?thesis using cmdList_frame [of L s] by (simp add: switch_def)
  next
    case 3
    then show ?thesis
      by (simp add: switch_def cmdGet_def Let_def split: option.split sum.split)
  next
    case 4
    then show ?thesis
      by (simp add: switch_def cmdPut_def Let_def split: option.split prod.split)
  next
    case 5
    then show ?thesis by (auto simp add: switch_def)
  next
    case 6
    then show ?thesis by (simp add: switch_def)
  qed
qed

lemma loopBody_writes:
  "\<exists>cs. calls (stateOf (loopBody L s t)) = calls s @ cs
     \<and> (list_all readOnly cs
          \<or> (\<exists>k ws. Fields t = ''put'' # k # ws \<and> ws \<noteq> []
                \<and> cs = [CrdtPut (NewKey L k) (Join ws '' '')]))"
proof (cases "\<exists>k w ws. Fields t = ''put'' # k # w # ws")
  case True
  then obtain k w ws where f: "Fields t = ''put'' # k # w # ws" by blast
  have "calls (stateOf (loopBody L s t)) = calls s @ [CrdtPut (NewKey L k) (Join (w # ws) '' '')]"
    using loopBody_put [OF f, of L s] by (simp add: Let_def split: option.split)
  with f show ?thesis by blast
next
  case False
  show ?thesis
  proof (cases "Fields t")
    case Nil
    then show ?thesis by (simp add: loopBody_def)
  next
    case (Cons cmd rest)
    have e: "calls (stateOf (loopBody L s t)) = calls (stateOf (switch L cmd (Fields t) s))"
      by (cases "switch L cmd (Fields t) s") (simp_all add: loopBody_def Cons index_def)
    show ?thesis
    proof (cases "cmd = ''put''")
      case True
      with False Cons have "length (Fields t) < 3"
        by (cases rest; cases "tl rest") auto
      with True have "calls (stateOf (switch L cmd (Fields t) s)) = calls s"
        by (simp add: switch_def cmdPut_def)
      with e show ?thesis by simp
    next
      case np: False
      obtain cs where "calls (stateOf (switch L cmd (Fields t) s)) = calls s @ cs"
          "list_all readOnly cs \<or> cmd = ''put'' \<and> (\<exists>k v. cs = [CrdtPut k v])"
        using switch_writes [of L cmd "Fields t" s] by blast
      with np e show ?thesis by auto
    qed
  qed
qed

lemma newArgs_storeCalls: "list_all storeCall cs \<Longrightarrow> newArgs (xs @ cs) = newArgs xs"
proof (induction xs)
  case Nil
  then show ?case by (induction cs) (auto elim: storeCall.elims)
next
  case (Cons x xs)
  then show ?case by (cases x) auto
qed

lemma bootstrapArgs_storeCalls:
  "list_all storeCall cs \<Longrightarrow> bootstrapArgs (xs @ cs) = bootstrapArgs xs"
proof (induction xs)
  case Nil
  then show ?case by (induction cs) (auto elim: storeCall.elims)
next
  case (Cons x xs)
  then show ?case by (cases x) auto
qed

lemma commandLoop_frame:
  "opts (stateOf (commandLoop L s ls)) = opts s \<and> scans (stateOf (commandLoop L s ls)) = scans s
   \<and> listen (stateOf (commandLoop L s ls)) = listen s
   \<and> newArgs (calls (stateOf (commandLoop L s ls))) = newArgs (calls s)
   \<and> bootstrapArgs (calls (stateOf (commandLoop L s ls))) = bootstrapArgs (calls s)"
  using scanLoop_frame [of L "Printf ''> '' s" ls]
  by (auto simp add: commandLoop_def newArgs_storeCalls bootstrapArgs_storeCalls)

lemma banner_frame:
  "opts (stateOf (banner E s)) = opts s \<and> scans (stateOf (banner E s)) = scans s
   \<and> listen (stateOf (banner E s)) = listen s \<and> calls (stateOf (banner E s)) = calls s"
  by (simp add: banner_def split: option.split)

lemma bootstrapPeer_frame:
  "opts (stateOf (bootstrapPeer L s)) = opts s \<and> listen (stateOf (bootstrapPeer L s)) = listen s
   \<and> newArgs (calls (stateOf (bootstrapPeer L s))) = newArgs (calls s)"
proof -
  have "newArgs (xs @ [Bootstrap ps, TagPeer a b c]) = newArgs xs" for xs ps a b c
    by (induction xs rule: newArgs.induct) auto
  then show ?thesis
    by (simp add: bootstrapPeer_def Scanln_def Let_def split: option.split list.split)
qed

text \<open>
  The part of \<open>main\<close> after \<open>crdt.New\<close> has succeeded (lines 204-338), which the
  properties of a whole run are proved through.
\<close>

lemma main_after_New:
  assumes "openNode E = None" and "failure E CrdtNewStep = None"
  shows "main L E lines s =
     (case bootstrapPeer L (called (CrdtNew (configure L))
             ((askBootstrap s)\<lparr>listen := NewMultiaddr L (listenText E), logLevel := ''error'',
                               opts := Some (configure L)\<rparr>)) of
        Normal s5 \<Rightarrow>
          (case banner E s5 of
             Normal s6 \<Rightarrow>
               if daemonMode E then Return (Println ''Running in daemon mode'' s6)
               else commandLoop L s6 lines
           | r \<Rightarrow> r)
      | r \<Rightarrow> r)"
  by (simp add: main_def assms Let_def)

lemma tail_frame:
  fixes bp :: "'st state ctl" and E :: env and L :: "'st lib" and lines :: "string list"
  defines "r \<equiv> (case bp of
        Normal s5 \<Rightarrow>
          (case banner E s5 of
             Normal s6 \<Rightarrow>
               if daemonMode E then Return (Println ''Running in daemon mode'' s6)
               else commandLoop L s6 lines
           | r \<Rightarrow> r)
      | r \<Rightarrow> r)"
  shows "opts (stateOf r) = opts (stateOf bp) \<and> scans (stateOf r) = scans (stateOf bp)
   \<and> listen (stateOf r) = listen (stateOf bp)
   \<and> newArgs (calls (stateOf r)) = newArgs (calls (stateOf bp))
   \<and> bootstrapArgs (calls (stateOf r)) = bootstrapArgs (calls (stateOf bp))"
proof (cases bp)
  case (Normal s5)
  show ?thesis
  proof (cases "banner E s5")
    case n6: (Normal s6)
    then have "opts s6 = opts s5" "scans s6 = scans s5" "listen s6 = listen s5"
        "calls s6 = calls s5"
      using banner_frame [of E s5] by simp_all
    with Normal n6 show ?thesis
      using commandLoop_frame [of L s6 lines] by (simp add: r_def)
  qed (use Normal banner_frame [of E s5] in \<open>simp_all add: r_def\<close>)
qed (simp_all add: r_def)

lemma askBootstrap_eq:
  "askBootstrap (start st sc) =
     (start st sc)\<lparr>stdout := [''Is this a bootstrap node? (y/n): '' @ [CHR 0x0A]],
                   scans := drop 1 sc, bootstrapNode := (scanned sc 0 = ''y'')\<rparr>"
  by (cases sc)
     (auto simp add: askBootstrap_def Scanln_def start_def Println_def Printf_def scanned_def
        split: option.split)

lemma bootstrapPeer_effect:
  assumes "bootstrapNodeAddr s = []"
  shows "scans (stateOf (bootstrapPeer L s)) = (if bootstrapNode s then scans s else drop 1 (scans s))"
    and "calls (stateOf (bootstrapPeer L s)) =
     (if bootstrapNode s then calls s
      else case AddrInfoFromP2pAddr L (NewMultiaddr L (scanned (scans s) 0)) of
             None \<Rightarrow> calls s
           | Some info \<Rightarrow>
               calls s @ [Bootstrap (DefaultBootstrapPeers L @ [info]), TagPeer (ID info) ''keep'' 100])"
  using assms
  by (cases "scans s";
      auto simp add: bootstrapPeer_def Scanln_def Println_def Printf_def scanned_def Let_def
        called_def split: option.split)+

lemma Fields_put_line:
  "Fields ''put  greeting hello   big world'' = [''put'', ''greeting'', ''hello'', ''big'', ''world'']"
  by (simp add: Fields_def flush_def asciiSpace_def)

lemma Fields_put_full: "Fields ''put full x'' = [''put'', ''full'', ''x'']"
  by (simp add: Fields_def flush_def asciiSpace_def)

lemma Fields_put_kv: "Fields ''put k v'' = [''put'', ''k'', ''v'']"
  by (simp add: Fields_def flush_def asciiSpace_def)

lemma Fields_delete_k: "Fields ''delete k'' = [''delete'', ''k'']"
  by (simp add: Fields_def flush_def asciiSpace_def)

lemma Fields_get_k: "Fields ''get k'' = [''get'', ''k'']"
  by (simp add: Fields_def flush_def asciiSpace_def)

lemma Fields_list: "Fields ''list'' = [''list'']"
  by (simp add: Fields_def flush_def asciiSpace_def)

section \<open>The claims about the command line\<close>

text \<open>
  C1, as the specification states it: the write path offers \<open>Put\<close> and \<open>Delete\<close>, and each
  returns the identifier of the new delta. The command loop has no case for \<open>delete\<close>: on
  the line \<open>delete k\<close> no call is made and only the prompt is printed; and on a successful
  \<open>put k v\<close> what is printed is the line of \<open>PutHook\<close> and the prompt, since \<open>crdt.Put\<close>
  returns only an error.
\<close>

theorem delete_is_no_command:
  "loopBody memLib s1 ''delete k'' = Continue (Printf ''> '' s1)
   \<and> calls (stateOf (loopBody memLib s1 ''delete k'')) = []
   \<and> calls (stateOf (loopBody memLib s1 ''put k v'')) = [CrdtPut ''/k'' ''v'']
   \<and> stdout (stateOf (loopBody memLib s1 ''put k v''))
        = [''Added: [/k] -> v'' @ [CHR 0x0A], ''> '']"
  by (simp add: loopBody_def switch_def cmdPut_def Fields_put_kv Fields_delete_k index_def
        sliceFrom_def called_def runHooks_def hookLines_def configure_def putHook_def Let_def
        memLib_def s1_def s0_def start_def Printf_def)

text \<open>
  C1, amended: the command loop offers \<open>put\<close> as its only write. A line whose first word
  is \<open>delete\<close> makes no call and changes nothing but the prompt printed. A \<open>put\<close> line with
  a key and a value makes the one call \<open>crdt.Put\<close> on that key and the words joined by
  spaces, whether or not it fails; when it returns no error, what is printed is what the
  hooks print for the calls the library makes on them during \<open>Put\<close>, then the prompt. On
  any line, the calls made are reads unless the line is such a \<open>put\<close> line. The hooks
  \<open>main\<close> installs print \<open>Added:\<close> with the key and the value, or \<open>Removed:\<close> with the key:
  no identifier of a delta reaches the caller.
\<close>

theorem put_is_the_only_write:
  "(Fields text = ''delete'' # args \<longrightarrow> loopBody L s text = Continue (Printf ''> '' s))
   \<and> (Fields text = ''put'' # k # w # ws \<longrightarrow>
        calls (stateOf (loopBody L s text))
          = calls s @ [CrdtPut (NewKey L k) (Join (w # ws) '' '')]
        \<and> (fst (crdtPut L (crdt s) (NewKey L k) (Join (w # ws) '' '')) = None \<longrightarrow>
             loopBody L s text =
               Continue
                 (s\<lparr>calls := calls s @ [CrdtPut (NewKey L k) (Join (w # ws) '' '')],
                    crdt := snd (crdtPut L (crdt s) (NewKey L k) (Join (w # ws) '' '')),
                    stdout := stdout s
                      @ hookLines (opts s)
                          (hooksInPut L (crdt s) (NewKey L k) (Join (w # ws) '' ''))
                      @ [''> '']\<rparr>)))
   \<and> (\<exists>cs. calls (stateOf (loopBody L s text)) = calls s @ cs
          \<and> (list_all readOnly cs
               \<or> (\<exists>k' ws'. Fields text = ''put'' # k' # ws' \<and> ws' \<noteq> []
                     \<and> cs = [CrdtPut (NewKey L k') (Join ws' '' '')])))
   \<and> hookLines (Some (configure L)) [PutHookCall a b]
        = [''Added: ['' @ a @ ''] -> '' @ b @ [CHR 0x0A]]
   \<and> hookLines (Some (configure L)) [DeleteHookCall a] = [''Removed: ['' @ a @ '']'' @ [CHR 0x0A]]"
proof -
  have "loopBody L s text = Continue (Printf ''> '' s)" if "Fields text = ''delete'' # args"
    using that by (simp add: loopBody_def switch_def index_def)
  moreover have "calls (stateOf (loopBody L s text))
          = calls s @ [CrdtPut (NewKey L k) (Join (w # ws) '' '')]"
    if "Fields text = ''put'' # k # w # ws"
    using loopBody_put [OF that, of L s] by (simp add: Let_def split: option.split)
  moreover have "loopBody L s text =
               Continue
                 (s\<lparr>calls := calls s @ [CrdtPut (NewKey L k) (Join (w # ws) '' '')],
                    crdt := snd (crdtPut L (crdt s) (NewKey L k) (Join (w # ws) '' '')),
                    stdout := stdout s
                      @ hookLines (opts s)
                          (hooksInPut L (crdt s) (NewKey L k) (Join (w # ws) '' ''))
                      @ [''> '']\<rparr>)"
    if "Fields text = ''put'' # k # w # ws"
      and "fst (crdtPut L (crdt s) (NewKey L k) (Join (w # ws) '' '')) = None"
    using that(2) loopBody_put [OF that(1), of L s] by (simp add: Let_def Printf_def)
  moreover have "\<exists>cs. calls (stateOf (loopBody L s text)) = calls s @ cs
          \<and> (list_all readOnly cs
               \<or> (\<exists>k' ws'. Fields text = ''put'' # k' # ws' \<and> ws' \<noteq> []
                     \<and> cs = [CrdtPut (NewKey L k') (Join ws' '' '')]))"
    by (rule loopBody_writes)
  moreover have "hookLines (Some (configure L)) [PutHookCall a b]
        = [''Added: ['' @ a @ ''] -> '' @ b @ [CHR 0x0A]]"
    by (simp add: hookLines_def configure_def putHook_def)
  moreover have "hookLines (Some (configure L)) [DeleteHookCall a]
        = [''Removed: ['' @ a @ '']'' @ [CHR 0x0A]]"
    by (simp add: hookLines_def configure_def deleteHook_def)
  ultimately show ?thesis by blast
qed

theorem put_is_the_only_write_witness:
  "Fields ''delete k'' = ''delete'' # [''k'']
   \<and> loopBody memLib s1 ''delete k'' = Continue (Printf ''> '' s1)
   \<and> Fields ''put k v'' = ''put'' # ''k'' # ''v'' # []
   \<and> fst (crdtPut memLib (crdt s1) (NewKey memLib ''k'') (Join [''v''] '' '')) = None
   \<and> loopBody memLib s1 ''put k v'' =
       Continue (s1\<lparr>calls := [CrdtPut ''/k'' ''v''], crdt := [''/k'' \<mapsto> ''v''],
                    stdout := [''Added: [/k] -> v'' @ [CHR 0x0A], ''> '']\<rparr>)"
  using put_is_the_only_write [of "''delete k''" "[''k'']" memLib s1 "''k''" "''v''" "[]"]
    put_is_the_only_write [of "''put k v''" "[]" memLib s1 "''k''" "''v''" "[]"]
  by (simp add: Fields_delete_k Fields_put_kv memLib_def s1_def s0_def start_def
        hookLines_def configure_def putHook_def)

text \<open>
  C3: the line \<open>debug\<close> alone. The usage message is printed, and then \<open>fields[1]\<close> is read
  from a slice of length 1: the process panics instead of going on to the next prompt.
\<close>

theorem debug_alone_panics:
  "loopBody L s ''debug'' = Panic (IndexOutOfRange 1 1) (Println ''debug <on/off/peers>'' s)"
  by (simp add: loopBody_def switch_def cmdDebug_def Fields_def flush_def asciiSpace_def
        index_def)

text \<open>
  C4: a \<open>get\<close> or a \<open>list\<close> line leaves the datastore as it was, and the calls it makes
  on the datastore are reads: \<open>list\<close> makes the one call \<open>Query\<close>, \<open>get\<close> with a key the
  one call \<open>Get\<close> on that key, and \<open>get\<close> without a key none.
\<close>

theorem read_commands_leave_store:
  assumes "Fields text = cmd # args" and "cmd = ''get'' \<or> cmd = ''list''"
  shows "crdt (stateOf (loopBody L s text)) = crdt s
       \<and> (\<exists>cs. calls (stateOf (loopBody L s text)) = calls s @ cs \<and> list_all readOnly cs
            \<and> (cmd = ''list'' \<longrightarrow> cs = [CrdtQuery])
            \<and> (cmd = ''get'' \<longrightarrow>
                  cs = (case args of [] \<Rightarrow> [] | a # _ \<Rightarrow> [CrdtGet (NewKey L a)])))"
  using assms(2)
  unfolding loopBody_def switch_def cmdGet_def cmdList_def
  by (cases args) (auto simp add: assms(1) index_def Let_def split: sum.split)

theorem read_commands_leave_store_witness:
  "Fields ''get k'' = ''get'' # [''k''] \<and> Fields ''list'' = ''list'' # []
   \<and> crdt (stateOf (loopBody memLib (s0\<lparr>crdt := [''/k'' \<mapsto> ''v'']\<rparr>) ''get k'')) = [''/k'' \<mapsto> ''v'']
   \<and> calls (stateOf (loopBody memLib (s0\<lparr>crdt := [''/k'' \<mapsto> ''v'']\<rparr>) ''get k'')) = [CrdtGet ''/k'']
   \<and> stdout (stateOf (loopBody memLib (s0\<lparr>crdt := [''/k'' \<mapsto> ''v'']\<rparr>) ''get k''))
        = [''[/k] -> v'' @ [CHR 0x0A], ''> '']
   \<and> crdt (stateOf (loopBody memLib (s0\<lparr>crdt := [''/k'' \<mapsto> ''v'']\<rparr>) ''list'')) = [''/k'' \<mapsto> ''v'']
   \<and> calls (stateOf (loopBody memLib (s0\<lparr>crdt := [''/k'' \<mapsto> ''v'']\<rparr>) ''list'')) = [CrdtQuery]"
  using read_commands_leave_store [of "''get k''" "''get''" "[''k'']" memLib "s0\<lparr>crdt := [''/k'' \<mapsto> ''v'']\<rparr>"]
    read_commands_leave_store [of "''list''" "''list''" "[]" memLib "s0\<lparr>crdt := [''/k'' \<mapsto> ''v'']\<rparr>"]
  by (simp add: Fields_get_k Fields_list loopBody_def switch_def cmdGet_def cmdList_def
        index_def Let_def memLib_def s0_def start_def Printf_def called_def)

text \<open>
  C5: when \<open>crdt.Put\<close> returns an error, the loop prints \<open>error:\<close> and the error's text,
  then the prompt, and goes on to read the next line; \<open>Put\<close> was called once. What the
  hooks printed while \<open>Put\<close> ran comes before the error.
\<close>

theorem put_error_surfaces:
  assumes "Fields text = ''put'' # k # ws" and "ws \<noteq> []"
    and "fst (crdtPut L (crdt s) (NewKey L k) (Join ws '' '')) = Some e"
  shows "loopBody L s text =
     Continue (s\<lparr>calls := calls s @ [CrdtPut (NewKey L k) (Join ws '' '')],
                 crdt := snd (crdtPut L (crdt s) (NewKey L k) (Join ws '' '')),
                 stdout := stdout s
                   @ hookLines (opts s) (hooksInPut L (crdt s) (NewKey L k) (Join ws '' ''))
                   @ [''error: '' @ errText (Some e) @ [CHR 0x0A], ''> '' @ [CHR 0x0A]]\<rparr>)"
  by (simp add: loopBody_put [OF assms(1,2)] assms(3) Let_def printErr_def Println_def
        Printf_def)

theorem put_error_surfaces_witness:
  "Fields ''put full x'' = ''put'' # ''full'' # [''x''] \<and> [''x''] \<noteq> []
   \<and> fst (crdtPut memLib (crdt s0) (NewKey memLib ''full'') (Join [''x''] '' ''))
        = Some (Error ''disk full'')
   \<and> loopBody memLib s0 ''put full x'' =
       Continue (s0\<lparr>calls := [CrdtPut ''/full'' ''x''],
                    stdout := [''error: disk full'' @ [CHR 0x0A], ''> '' @ [CHR 0x0A]]\<rparr>)"
  using put_error_surfaces [of "''put full x''" "''full''" "[''x'']" memLib s0 "Error ''disk full''"]
  by (simp add: Fields_put_full memLib_def s0_def start_def hookLines_def)

lemma bootstrapPeer_panic:
  assumes "bootstrapNodeAddr s = []" and "\<not> bootstrapNode s"
    and "AddrInfoFromP2pAddr L (NewMultiaddr L (scanned (scans s) 0)) = None"
  shows "\<exists>s'. bootstrapPeer L s = Panic NilDereference s' \<and> calls s' = calls s"
  using assms
  by (cases "scans s")
     (auto simp add: bootstrapPeer_def Scanln_def scanned_def Let_def split: option.split)

text \<open>
  C7: the answer to the first question is not \<open>y\<close> and the address typed does not parse
  to a peer (\<open>localhost\<close>, say). In a run whose set-up calls all succeed, \<open>main\<close>
  dereferences the nil \<open>inf\<close> on line 214 and panics: \<open>Bootstrap\<close> is not called at all,
  where the specification has it called exactly once.
\<close>

theorem unparsable_bootstrap_address_panics:
  assumes "openNode E = None" and "failure E CrdtNewStep = None"
    and "scanned sc 0 \<noteq> ''y''"
    and "AddrInfoFromP2pAddr L (NewMultiaddr L (scanned sc 1)) = None"
  shows "\<exists>s'. main L E lines (start st sc) = Panic NilDereference s'
            \<and> bootstrapArgs (calls s') = []"
proof -
  let ?s4 = "called (CrdtNew (configure L))
             ((askBootstrap (start st sc))\<lparr>listen := NewMultiaddr L (listenText E),
                logLevel := ''error'', opts := Some (configure L)\<rparr>)"
  have ab: "bootstrapNodeAddr (askBootstrap (start st sc)) = []"
      "scans (askBootstrap (start st sc)) = drop 1 sc"
      "bootstrapNode (askBootstrap (start st sc)) = (scanned sc 0 = ''y'')"
      "calls (askBootstrap (start st sc)) = []"
    unfolding askBootstrap_eq by (simp_all add: start_def)
  have d: "scanned (drop (Suc 0) sc) 0 = scanned sc (Suc 0)"
    by (simp add: scanned_def)
  have "\<exists>s'. bootstrapPeer L ?s4 = Panic NilDereference s' \<and> calls s' = calls ?s4"
    by (rule bootstrapPeer_panic) (use assms(3,4) in \<open>simp_all add: ab d\<close>)
  then obtain s' where s': "bootstrapPeer L ?s4 = Panic NilDereference s'" "calls s' = calls ?s4"
    by blast
  then show ?thesis
    by (simp add: main_after_New [OF assms(1,2)] ab)
qed

theorem unparsable_bootstrap_address_panics_witness:
  "openNode okEnv = None \<and> failure okEnv CrdtNewStep = None
   \<and> scanned [Some ''n'', Some ''localhost''] 0 \<noteq> ''y''
   \<and> AddrInfoFromP2pAddr memLib (NewMultiaddr memLib (scanned [Some ''n'', Some ''localhost''] 1)) = None
   \<and> (\<exists>s'. main memLib okEnv [''list''] (start Map.empty [Some ''n'', Some ''localhost''])
              = Panic NilDereference s' \<and> bootstrapArgs (calls s') = [])"
proof -
  have h: "openNode okEnv = None" "failure okEnv CrdtNewStep = None"
    by (simp_all add: openNode_def okEnv_def)
  have a: "scanned [Some ''n'', Some ''localhost''] 0 \<noteq> ''y''"
    by (simp add: scanned_def)
  have p: "AddrInfoFromP2pAddr memLib (NewMultiaddr memLib (scanned [Some ''n'', Some ''localhost''] 1)) = None"
    by (simp add: scanned_def memLib_def)
  from unparsable_bootstrap_address_panics [OF h a p, of "[''list'']" Map.empty] h a p
  show ?thesis by blast
qed

text \<open>
  C9: on a line whose fields are \<open>put\<close>, a key and one or more words, the value handed to
  \<open>crdt.Put\<close> under the key is the words joined by single spaces, in one call; the
  datastore is left as that call leaves it.
\<close>

theorem put_value_is_joined_words:
  assumes "Fields text = ''put'' # k # ws" and "ws \<noteq> []"
  shows "calls (stateOf (loopBody L s text)) = calls s @ [CrdtPut (NewKey L k) (Join ws '' '')]
       \<and> crdt (stateOf (loopBody L s text))
           = snd (crdtPut L (crdt s) (NewKey L k) (Join ws '' ''))"
  by (simp add: loopBody_put [OF assms] Let_def split: option.split)

theorem put_value_is_joined_words_witness:
  "Fields ''put  greeting hello   big world''
     = ''put'' # ''greeting'' # [''hello'', ''big'', ''world'']
   \<and> [''hello'', ''big'', ''world''] \<noteq> []
   \<and> calls (stateOf (loopBody memLib s0 ''put  greeting hello   big world''))
       = [CrdtPut ''/greeting'' ''hello big world'']
   \<and> crdt (stateOf (loopBody memLib s0 ''put  greeting hello   big world'')) ''/greeting''
       = Some ''hello big world''"
  using put_value_is_joined_words [of "''put  greeting hello   big world''" "''greeting''"
      "[''hello'', ''big'', ''world'']" memLib s0]
  by (simp add: Fields_put_line memLib_def s0_def start_def)

text \<open>
  C10: \<open>rand.Intn(1000)\<close> returns a number from 0 up to but not including 1000; the port
  is 4000 plus that number, so it lies between 4000 and 4999, and the multiaddr \<open>listen\<close>
  is made, in every run, from \<open>/ip4/127.0.0.1/tcp/\<close> followed by 4000 plus that number
  in decimal.
\<close>

theorem listen_port_in_range:
  assumes "0 \<le> Intn E 1000" and "Intn E 1000 < 1000"
  shows "port E = 4000 + Intn E 1000 \<and> 4000 \<le> port E \<and> port E \<le> 4999
       \<and> listen (stateOf (main L E lines (start st sc)))
           = NewMultiaddr L (''/ip4/127.0.0.1/tcp/'' @ Itoa (4000 + Intn E 1000))"
proof -
  let ?s3 = "(askBootstrap (start st sc))\<lparr>listen := NewMultiaddr L (listenText E),
                logLevel := ''error''\<rparr>"
  let ?s4 = "called (CrdtNew (configure L)) (?s3\<lparr>opts := Some (configure L)\<rparr>)"
  have "listen (stateOf (main L E lines (start st sc))) = NewMultiaddr L (listenText E)"
  proof (cases "openNode E")
    case (Some e)
    then show ?thesis by (simp add: main_def Let_def)
  next
    case None
    show ?thesis
    proof (cases "failure E CrdtNewStep")
      case (Some e)
      with None show ?thesis by (simp add: main_def Let_def)
    next
      case N: None
      show ?thesis
        using tail_frame [where bp = "bootstrapPeer L ?s4" and E = E and L = L and lines = lines]
          bootstrapPeer_frame [of L ?s4]
        by (simp add: main_after_New [OF None N])
    qed
  qed
  with assms show ?thesis by (simp add: port_def listenText_def)
qed

theorem listen_port_in_range_witness:
  "0 \<le> Intn okEnv 1000 \<and> Intn okEnv 1000 < 1000 \<and> port okEnv = 4123
   \<and> listen (stateOf (main memLib okEnv [''exit''] (start Map.empty [Some ''y''])))
       = Some ''/ip4/127.0.0.1/tcp/4123''
   \<and> port (okEnv\<lparr>Intn := (\<lambda>n. 0)\<rparr>) = 4000
   \<and> listen (stateOf (main memLib (okEnv\<lparr>Intn := (\<lambda>n. 0)\<rparr>) [''exit'']
         (start Map.empty [Some ''y''])))
       = Some ''/ip4/127.0.0.1/tcp/4000''
   \<and> port (okEnv\<lparr>Intn := (\<lambda>n. n - 1)\<rparr>) = 4999
   \<and> listen (stateOf (main memLib (okEnv\<lparr>Intn := (\<lambda>n. n - 1)\<rparr>) [''exit'']
         (start Map.empty [Some ''y''])))
       = Some ''/ip4/127.0.0.1/tcp/4999''"
proof -
  have h: "0 \<le> Intn okEnv 1000" "Intn okEnv 1000 < 1000"
    and h0: "0 \<le> Intn (okEnv\<lparr>Intn := (\<lambda>n. 0)\<rparr>) 1000" "Intn (okEnv\<lparr>Intn := (\<lambda>n. 0)\<rparr>) 1000 < 1000"
    and h9: "0 \<le> Intn (okEnv\<lparr>Intn := (\<lambda>n. n - 1)\<rparr>) 1000"
      "Intn (okEnv\<lparr>Intn := (\<lambda>n. n - 1)\<rparr>) 1000 < 1000"
    by (simp_all add: okEnv_def)
  have i: "Itoa 4123 = ''4123''" "Itoa 4000 = ''4000''" "Itoa 4999 = ''4999''"
    by (simp_all add: Itoa_def digits.simps)
  show ?thesis
    using listen_port_in_range [OF h, of memLib "[''exit'']" Map.empty "[Some ''y'']"]
      listen_port_in_range [OF h0, of memLib "[''exit'']" Map.empty "[Some ''y'']"]
      listen_port_in_range [OF h9, of memLib "[''exit'']" Map.empty "[Some ''y'']"]
    by (simp add: okEnv_def i memLib_def)
qed

section \<open>Further properties of the command line\<close>

lemma cmdGet_no_panic: "cmdGet L fs s \<noteq> Panic p s'"
  by (auto simp add: cmdGet_def index_def Let_def split: sum.split)

lemma cmdPut_no_panic: "cmdPut L fs s \<noteq> Panic p s'"
  by (auto simp add: cmdPut_def index_def sliceFrom_def Let_def split: prod.split option.split)

lemma cmdDebug_panic: "(\<exists>p s'. cmdDebug L fs s = Panic p s') = (length fs < 2)"
  by (auto simp add: cmdDebug_def index_def Let_def)

lemma cmdList_panic: "(\<exists>p s'. cmdList L s = Panic p s') = (\<exists>e. crdtQuery L (crdt s) = Inl e)"
  by (auto simp add: cmdList_def Let_def split: sum.split)

text \<open>
  When a pass of the loop body panics: on the line \<open>debug\<close> alone, and on a \<open>list\<close> line
  when \<open>Query\<close> returns an error (the loop then ranges over the nil \<open>results\<close>); on no
  other line.
\<close>

theorem loop_body_panics:
  "(\<exists>p s'. loopBody L s t = Panic p s') =
     (Fields t = [''debug'']
      \<or> (\<exists>args. Fields t = ''list'' # args) \<and> (\<exists>e. crdtQuery L (crdt s) = Inl e))"
proof (cases "Fields t")
  case Nil
  then show ?thesis by (simp add: loopBody_def)
next
  case (Cons cmd args)
  have sw: "(\<exists>p s'. loopBody L s t = Panic p s') = (\<exists>p s'. switch L cmd (cmd # args) s = Panic p s')"
    by (cases "switch L cmd (cmd # args) s") (simp_all add: loopBody_def Cons index_def)
  consider "cmd = ''debug''" | "cmd = ''list''" | "cmd = ''get''" | "cmd = ''put''"
    | "cmd = ''exit'' \<or> cmd = ''quit''"
    | "cmd \<noteq> ''debug''" "cmd \<noteq> ''list''" "cmd \<noteq> ''get''" "cmd \<noteq> ''put''"
      "cmd \<noteq> ''exit''" "cmd \<noteq> ''quit''"
    by blast
  then show ?thesis
  proof cases
    case 1
    then show ?thesis
      unfolding sw using cmdDebug_panic [of L "cmd # args" s]
      by (cases args) (simp_all add: switch_def Cons)
  next
    case 2
    then show ?thesis
      unfolding sw using cmdList_panic [of L s] by (simp add: switch_def Cons)
  next
    case 3
    then show ?thesis
      unfolding sw using cmdGet_no_panic [of L "cmd # args" s] by (simp add: switch_def Cons)
  next
    case 4
    then show ?thesis
      unfolding sw using cmdPut_no_panic [of L "cmd # args" s] by (simp add: switch_def Cons)
  next
    case 5
    then show ?thesis
      unfolding sw by (auto simp add: switch_def Cons)
  next
    case 6
    then show ?thesis
      unfolding sw by (simp add: switch_def Cons)
  qed
qed


text \<open>
  The rebroadcast interval \<open>main\<close> configures: in every run that reaches line 186,
  \<open>opts.RebroadcastInterval\<close> is 5 seconds (5000000000 nanoseconds) when \<open>crdt.New\<close>
  receives \<open>opts\<close>, and it still is in the state the run ends in, whatever lines the
  command loop has read; a run that ends before line 186 never sets it. The loop that
  uses the interval runs inside the library.
\<close>

theorem rebroadcast_interval_is_five_seconds:
  "map_option RebroadcastInterval (opts (stateOf (main L E lines (start st sc)))) =
     (if openNode E = None then Some 5000000000 else None)
   \<and> map RebroadcastInterval (newArgs (calls (stateOf (main L E lines (start st sc))))) =
     (if openNode E = None then [5000000000] else [])"
proof (cases "openNode E")
  case (Some e)
  then show ?thesis
    unfolding main_def askBootstrap_eq by (simp add: Let_def start_def)
next
  case None
  let ?s4 = "called (CrdtNew (configure L))
             ((askBootstrap (start st sc))\<lparr>listen := NewMultiaddr L (listenText E),
                logLevel := ''error'', opts := Some (configure L)\<rparr>)"
  have c: "RebroadcastInterval (configure L) = 5000000000"
    by (simp add: configure_def Second_def)
  have s4: "opts ?s4 = Some (configure L)" "newArgs (calls ?s4) = [configure L]"
    unfolding askBootstrap_eq by (simp_all add: start_def)
  show ?thesis
  proof (cases "failure E CrdtNewStep")
    case (Some e)
    with None s4 c show ?thesis by (simp add: main_def Let_def)
  next
    case N: None
    show ?thesis
      using tail_frame [where bp = "bootstrapPeer L ?s4" and E = E and L = L and lines = lines] bootstrapPeer_frame [of L ?s4] s4 c
      by (simp add: main_after_New [OF None N] None)
  qed
qed

text \<open>
  Bootstrap with an address that parses, in a run of \<open>main\<close> whose set-up calls all
  succeed. When the answer to the first question is \<open>y\<close>, \<open>fmt.Scanln\<close> is called that
  once and \<open>Bootstrap\<close> is never called. When it is anything else, \<open>fmt.Scanln\<close> is called
  once more, for the address, and when that address parses to a peer, \<open>Bootstrap\<close> is
  called exactly once in the whole run, with the default bootstrap peers followed by that
  peer.
\<close>

theorem bootstrap_is_one_shot:
  assumes "openNode E = None" and "failure E CrdtNewStep = None"
  shows "(scanned sc 0 = ''y'' \<longrightarrow>
            bootstrapArgs (calls (stateOf (main L E lines (start st sc)))) = []
            \<and> scans (stateOf (main L E lines (start st sc))) = drop 1 sc)
       \<and> (scanned sc 0 \<noteq> ''y'' \<longrightarrow>
            (\<forall>info. AddrInfoFromP2pAddr L (NewMultiaddr L (scanned sc 1)) = Some info \<longrightarrow>
               bootstrapArgs (calls (stateOf (main L E lines (start st sc))))
                 = [DefaultBootstrapPeers L @ [info]]
               \<and> scans (stateOf (main L E lines (start st sc))) = drop 2 sc))"
proof -
  let ?s4 = "called (CrdtNew (configure L))
             ((askBootstrap (start st sc))\<lparr>listen := NewMultiaddr L (listenText E),
                logLevel := ''error'', opts := Some (configure L)\<rparr>)"
  have ab: "bootstrapNodeAddr (askBootstrap (start st sc)) = []"
      "scans (askBootstrap (start st sc)) = drop 1 sc"
      "bootstrapNode (askBootstrap (start st sc)) = (scanned sc 0 = ''y'')"
      "calls (askBootstrap (start st sc)) = []"
    unfolding askBootstrap_eq by (simp_all add: start_def)
  have a: "bootstrapNodeAddr ?s4 = []"
    by (simp add: ab)
  have d: "scanned (drop (Suc 0) sc) 0 = scanned sc (Suc 0)"
    by (simp add: scanned_def)
  have t: "bootstrapArgs (calls (stateOf (main L E lines (start st sc))))
             = bootstrapArgs (calls (stateOf (bootstrapPeer L ?s4)))"
      "scans (stateOf (main L E lines (start st sc))) = scans (stateOf (bootstrapPeer L ?s4))"
    using tail_frame [where bp = "bootstrapPeer L ?s4" and E = E and L = L and lines = lines]
    by (simp_all add: main_after_New [OF assms])
  have b: "bootstrapArgs [CrdtNew x, Bootstrap ps, TagPeer p q n] = [ps]" for x ps p q n
    by simp
  have e: "scans (stateOf (bootstrapPeer L ?s4)) = (if scanned sc 0 = ''y'' then drop 1 sc else drop 2 sc)"
    using bootstrapPeer_effect(1) [OF a, of L] by (simp add: ab numeral_2_eq_2)
  have c: "calls (stateOf (bootstrapPeer L ?s4)) =
     (if scanned sc 0 = ''y'' then [CrdtNew (configure L)]
      else case AddrInfoFromP2pAddr L (NewMultiaddr L (scanned sc 1)) of
             None \<Rightarrow> [CrdtNew (configure L)]
           | Some info \<Rightarrow>
               [CrdtNew (configure L), Bootstrap (DefaultBootstrapPeers L @ [info]),
                TagPeer (ID info) ''keep'' 100])"
    using bootstrapPeer_effect(2) [OF a, of L] by (simp add: ab d split: option.split)
  show ?thesis
    unfolding t e c by simp
qed

theorem bootstrap_is_one_shot_witness:
  "openNode okEnv = None \<and> failure okEnv CrdtNewStep = None
   \<and> scanned [Some ''n'', Some ''/ip4/104.131.131.82/tcp/4001/p2p/QmaCpDMGvV2BGHeYERUEnRQAwe3N8SzbUtfsmvsqQLuvuJ''] 0 = ''n''
   \<and> AddrInfoFromP2pAddr memLib
         (NewMultiaddr memLib
            (scanned [Some ''n'', Some ''/ip4/104.131.131.82/tcp/4001/p2p/QmaCpDMGvV2BGHeYERUEnRQAwe3N8SzbUtfsmvsqQLuvuJ''] 1))
       = Some \<lparr>ID = ''QmaCpDMGvV2BGHeYERUEnRQAwe3N8SzbUtfsmvsqQLuvuJ'',
                Addrs = [''/ip4/104.131.131.82/tcp/4001'']\<rparr>
   \<and> bootstrapArgs (calls (stateOf (main memLib okEnv [''list'', ''exit'']
         (start Map.empty [Some ''n'', Some ''/ip4/104.131.131.82/tcp/4001/p2p/QmaCpDMGvV2BGHeYERUEnRQAwe3N8SzbUtfsmvsqQLuvuJ'']))))
       = [[\<lparr>ID = ''QmDefault'', Addrs = [''/dnsaddr/bootstrap.libp2p.io'']\<rparr>,
           \<lparr>ID = ''QmaCpDMGvV2BGHeYERUEnRQAwe3N8SzbUtfsmvsqQLuvuJ'',
              Addrs = [''/ip4/104.131.131.82/tcp/4001'']\<rparr>]]
   \<and> scans (stateOf (main memLib okEnv [''list'', ''exit'']
         (start Map.empty [Some ''n'', Some ''/ip4/104.131.131.82/tcp/4001/p2p/QmaCpDMGvV2BGHeYERUEnRQAwe3N8SzbUtfsmvsqQLuvuJ'']))) = []
   \<and> scanned [Some ''y'', Some ''put k v''] 0 = ''y''
   \<and> bootstrapArgs (calls (stateOf (main memLib okEnv [''list'', ''exit'']
         (start Map.empty [Some ''y'', Some ''put k v''])))) = []
   \<and> scans (stateOf (main memLib okEnv [''list'', ''exit'']
         (start Map.empty [Some ''y'', Some ''put k v'']))) = [Some ''put k v'']"
proof -
  have h: "openNode okEnv = None" "failure okEnv CrdtNewStep = None"
    by (simp_all add: openNode_def okEnv_def)
  show ?thesis
    using bootstrap_is_one_shot [OF h, of "[Some ''n'', Some ''/ip4/104.131.131.82/tcp/4001/p2p/QmaCpDMGvV2BGHeYERUEnRQAwe3N8SzbUtfsmvsqQLuvuJ'']"
        memLib "[''list'', ''exit'']" Map.empty]
      bootstrap_is_one_shot [OF h, of "[Some ''y'', Some ''put k v'']"
        memLib "[''list'', ''exit'']" Map.empty]
    by (simp add: h scanned_def memLib_def)
qed

text \<open>
  \<open>strings.Fields\<close> undoes \<open>strings.Join\<close> with a single space on words that hold no
  white space, so a line typed as \<open>put\<close>, a key and words, one space apart, stores the
  words as typed.
\<close>

lemma spaceLen_plain: "plainByte c \<Longrightarrow> spaceLen (c # cs) = 0"
  by (simp add: plainByte_def)

lemma fieldsFrom_word:
  "list_all plainByte w \<Longrightarrow> fieldsFrom 0 acc (w @ rest) = fieldsFrom 0 (acc @ w) rest"
  by (induction w arbitrary: acc) (simp_all add: spaceLen_plain del: spaceLen.simps)

lemma fieldsFrom_space: "fieldsFrom 0 acc (CHR '' '' # rest) = flush acc @ fieldsFrom 0 [] rest"
  by (simp add: asciiSpace_def)

lemma Fields_Join:
  "list_all plainWord ws \<Longrightarrow> Fields (Join ws '' '') = ws"
proof (induction ws "'' ''" rule: Join.induct)
  case 1
  show ?case by (simp add: Fields_def flush_def)
next
  case (2 x)
  then show ?case
    using fieldsFrom_word [of x "[]" "[]"] by (simp add: Fields_def flush_def plainWord_def)
next
  case (3 x y ys)
  let ?J = "Join (y # ys) '' ''"
  from "3.prems" have x: "x \<noteq> []" "list_all plainByte x" and r: "list_all plainWord (y # ys)"
    by (simp_all add: plainWord_def)
  have "Fields (Join (x # y # ys) '' '') = fieldsFrom 0 [] (x @ CHR '' '' # ?J)"
    by (simp add: Fields_def)
  also have "\<dots> = fieldsFrom 0 x (CHR '' '' # ?J)"
    using fieldsFrom_word [OF x(2), of "[]"] by simp
  also have "\<dots> = flush x @ fieldsFrom 0 [] ?J"
    by (rule fieldsFrom_space)
  also have "\<dots> = x # y # ys"
    using "3.hyps" [OF r] x(1) by (simp add: Fields_def flush_def)
  finally show ?case .
qed

theorem put_line_stores_its_words:
  assumes "plainWord k" and "list_all plainWord ws" and "ws \<noteq> []"
  shows "calls (stateOf (loopBody L s (Join (''put'' # k # ws) '' '')))
          = calls s @ [CrdtPut (NewKey L k) (Join ws '' '')]"
proof -
  have "plainWord ''put''"
    by (simp add: plainWord_def plainByte_def asciiSpace_def)
  with assms(1,2) have "Fields (Join (''put'' # k # ws) '' '') = ''put'' # k # ws"
    by (intro Fields_Join) simp
  from loopBody_put [OF this assms(3), of L s] show ?thesis
    by (simp add: Let_def split: option.split)
qed

theorem put_line_stores_its_words_witness:
  "plainWord ''motd'' \<and> list_all plainWord [''hello'', ''world''] \<and> [''hello'', ''world''] \<noteq> []
   \<and> Join [''put'', ''motd'', ''hello'', ''world''] '' '' = ''put motd hello world''
   \<and> calls (stateOf (loopBody memLib s0 ''put motd hello world'')) = [CrdtPut ''/motd'' ''hello world'']"
proof -
  have h: "plainWord ''motd''" "list_all plainWord [''hello'', ''world'']"
    "[''hello'', ''world''] \<noteq> []"
    by (simp_all add: plainWord_def plainByte_def asciiSpace_def)
  from put_line_stores_its_words [OF h, of memLib s0] h show ?thesis
    by (simp add: memLib_def s0_def start_def)
qed

section \<open>Convergence of the replication core\<close>





lemma removeOne_held [simp]: "held (removeOne A r m k) = held (m k)"
  by (cases r) (auto simp add: removeOne_def split: option.split)

lemma fold_removeOne_held [simp]: "held (fold (removeOne A) rems m k) = held (m k)"
  by (induction rems arbitrary: m) auto



text \<open>What applying a new delta whose parents are present does to one key.\<close>

lemma Apply_new:
  assumes "did d \<notin> applied r" and "set (parents d) \<subseteq> applied r"
  shows "Apply d r = Inr \<lparr>applied = insert (did d) (applied r),
                mat = fold (removeOne (applied r)) (removals d)
                        (fold (addOne (did d)) (additions d) (mat r))\<rparr>"
  using assms by (simp add: Apply_def)















end
